theory Spec2Isabelle
  imports Main "HOL-Library.Word"
begin

unbundle bit_operations_syntax

section \<open>Brook storage engine: data model\<close>

text \<open>
  A shallow embedding of the storage package of brook: the record and index codecs, the
  mmap reader, the sparse index, the segment log, the partition and the asynchronous
  writer.  Files live in an explicit store \<open>fs\<close> from paths to byte sequences, because the
  writable log of a partition and the read-only log that \<open>Partition.Read\<close> opens share
  their files.  Failures of the operating system (a full disk, a failing \<open>stat\<close> or
  \<open>mmap\<close>) are not modelled: every system call on an existing file succeeds.  Locks are
  not modelled either: every operation runs alone, as it does under the locks it takes.
\<close>

type_synonym byte = "8 word"
type_synonym fs = "string \<Rightarrow> byte list option"

text \<open>
  Go errors are values of \<open>error\<close>; a function that can fail returns \<open>error + 'a\<close>.
  A run-time panic is the value \<open>Panic\<close>: it passes through every \<open>fmt.Errorf\<close> unchanged
  (\<open>wrapErr\<close>), as a panic unwinds through every caller.
\<close>

datatype error =
    ErrRecordNotFoundFullScan
  | ErrReadOnly
  | ErrEmptyStore
  | ErrOutOfBounds
  | ErrNotExist
  | ErrNegativeOffset
  | ErrEOF
  | ErrWriteAfterClose
  | Wrap string error
  | Panic string

fun is_panic :: "error \<Rightarrow> bool" where
  "is_panic (Panic s) = True"
| "is_panic e = False"

definition wrapErr :: "string \<Rightarrow> error \<Rightarrow> error" where
  "wrapErr ctx e = (if is_panic e then e else Wrap ctx e)"

text \<open>
  \<open>int\<close>, \<open>int64\<close>: values are mathematical integers, and \<open>int64\<close> is the wrap-around
  of 64-bit two's complement arithmetic, applied where the source adds.
\<close>

definition int64 :: "int \<Rightarrow> int" where
  "int64 x = sint (word_of_int x :: 64 word)"

definition contents :: "fs \<Rightarrow> string \<Rightarrow> byte list" where
  "contents fs p = (case fs p of None \<Rightarrow> [] | Some c \<Rightarrow> c)"

text \<open>A write through a descriptor opened with \<open>O_APPEND\<close>.\<close>

definition file_append :: "fs \<Rightarrow> string \<Rightarrow> byte list \<Rightarrow> fs" where
  "file_append fs p bs = fs(p \<mapsto> contents fs p @ bs)"

text \<open>
  \<open>os.File.ReadAt\<close> into a buffer of \<open>n\<close> bytes: a negative offset is refused, an empty
  buffer reads nothing, and fewer than \<open>n\<close> bytes before the end of the file is \<open>io.EOF\<close>.
\<close>

definition file_ReadAt :: "byte list \<Rightarrow> nat \<Rightarrow> int \<Rightarrow> error + byte list" where
  "file_ReadAt content n off =
     (if off < 0 then Inl ErrNegativeOffset
      else if n = 0 then Inr []
      else if nat off + n > length content then Inl ErrEOF
      else Inr (take n (drop (nat off) content)))"

subsection \<open>Record codec\<close>

abbreviation HeaderSize :: nat where "HeaderSize \<equiv> 24"

record RecordHeader =
  LogicalOffset :: "64 word"
  PayloadSize :: "64 word"
  Timestamp :: "64 word"

record Record =
  Header :: RecordHeader
  Payload :: "byte list"

definition emptyHeader :: RecordHeader where
  "emptyHeader = \<lparr>LogicalOffset = 0, PayloadSize = 0, Timestamp = 0\<rparr>"

definition emptyRecord :: Record where
  "emptyRecord = \<lparr>Header = emptyHeader, Payload = []\<rparr>"

text \<open>\<open>binary.BigEndian.PutUint64\<close> and \<open>Uint64\<close>, \<open>PutUint32\<close> and \<open>Uint32\<close>.\<close>

definition PutUint64 :: "64 word \<Rightarrow> byte list" where
  "PutUint64 v = [ucast (drop_bit 56 v), ucast (drop_bit 48 v), ucast (drop_bit 40 v),
     ucast (drop_bit 32 v), ucast (drop_bit 24 v), ucast (drop_bit 16 v),
     ucast (drop_bit 8 v), ucast v]"

definition Uint64 :: "byte list \<Rightarrow> 64 word" where
  "Uint64 b = (ucast (b ! 7) OR push_bit 8 (ucast (b ! 6)) OR push_bit 16 (ucast (b ! 5))
      OR push_bit 24 (ucast (b ! 4)) OR push_bit 32 (ucast (b ! 3))
      OR push_bit 40 (ucast (b ! 2)) OR push_bit 48 (ucast (b ! 1))
      OR push_bit 56 (ucast (b ! 0)))"

definition PutUint32 :: "32 word \<Rightarrow> byte list" where
  "PutUint32 v = [ucast (drop_bit 24 v), ucast (drop_bit 16 v), ucast (drop_bit 8 v), ucast v]"

definition Uint32 :: "byte list \<Rightarrow> 32 word" where
  "Uint32 b = (ucast (b ! 3) OR push_bit 8 (ucast (b ! 2)) OR push_bit 16 (ucast (b ! 1))
      OR push_bit 24 (ucast (b ! 0)))"

text \<open>
  \<open>Encode\<close> fills the 24-byte slot it is given; the model returns the 24 bytes.
  \<open>Decode\<close> on a slice shorter than 24 bytes panics in Go (slice bounds): \<open>None\<close>.
\<close>

definition Encode :: "RecordHeader \<Rightarrow> byte list" where
  "Encode h = PutUint64 (LogicalOffset h) @ PutUint64 (PayloadSize h) @ PutUint64 (Timestamp h)"

definition Decode :: "byte list \<Rightarrow> RecordHeader option" where
  "Decode src =
     (if length src < 24 then None
      else Some \<lparr>LogicalOffset = Uint64 (take 8 src),
                 PayloadSize = Uint64 (take 8 (drop 8 src)),
                 Timestamp = Uint64 (take 8 (drop 16 src))\<rparr>)"

subsection \<open>Index codec\<close>

abbreviation offWidth :: nat where "offWidth \<equiv> 4"
abbreviation posWidth :: nat where "posWidth \<equiv> 4"
abbreviation entryWidth :: nat where "entryWidth \<equiv> 8"

record IndexEntry =
  LogicalOff :: "32 word"
  MemoryPos :: "32 word"

definition emptyEntry :: IndexEntry where
  "emptyEntry = \<lparr>LogicalOff = 0, MemoryPos = 0\<rparr>"

definition Marshal :: "IndexEntry \<Rightarrow> byte list" where
  "Marshal ie = PutUint32 (LogicalOff ie) @ PutUint32 (MemoryPos ie)"

definition Unmarshal :: "byte list \<Rightarrow> IndexEntry option" where
  "Unmarshal src =
     (if length src < entryWidth then None
      else Some \<lparr>LogicalOff = Uint32 (take offWidth src),
                 MemoryPos = Uint32 (take posWidth (drop offWidth src))\<rparr>)"

subsection \<open>Mmap reader\<close>

text \<open>
  The mapping is a shared read-only view of the first bytes of the file; \<open>data = None\<close> is
  the nil slice of an empty or closed store.  The files are append-only, so the view is
  modelled by the bytes it had when it was mapped.
\<close>

record MmapStore =
  mfile :: string
  data :: "byte list option"

definition NewMmapStore :: "fs \<Rightarrow> string \<Rightarrow> error + MmapStore" where
  "NewMmapStore fs p =
     (case fs p of
        None \<Rightarrow> Inl (Wrap ''failed to open file'' ErrNotExist)
      | Some c \<Rightarrow> Inr \<lparr>mfile = p, data = (if length c = 0 then None else Some c)\<rparr>)"

definition Size :: "MmapStore \<Rightarrow> nat" where
  "Size m = (case data m of None \<Rightarrow> 0 | Some d \<Rightarrow> length d)"

definition Sync :: "fs \<Rightarrow> MmapStore \<Rightarrow> MmapStore" where
  "Sync fs m =
     (let c = contents fs (mfile m) in
      if length c \<le> Size m then m else m\<lparr>data := Some c\<rparr>)"

definition MmapClose :: "MmapStore \<Rightarrow> MmapStore" where
  "MmapClose m = m\<lparr>data := None\<rparr>"

text \<open>
  \<open>ReadAt\<close> takes two Go \<open>int\<close>s.  The sum \<open>offset+length\<close> wraps around; the slice
  expression \<open>m.data[offset : offset+length]\<close> panics when \<open>offset\<close> is negative or
  greater than the upper bound.
\<close>

definition ReadAt :: "MmapStore \<Rightarrow> int \<Rightarrow> int \<Rightarrow> error + byte list" where
  "ReadAt m offset len =
     (case data m of
        None \<Rightarrow> Inl ErrEmptyStore
      | Some d \<Rightarrow>
          (let hi = int64 (offset + len) in
           if hi > int (length d) then Inl ErrOutOfBounds
           else if offset < 0 \<or> hi < offset then Inl (Panic ''slice bounds out of range'')
           else Inr (take (nat (hi - offset)) (drop (nat offset) d))))"

subsection \<open>Buffered writer\<close>

text \<open>
  \<open>bufio.Writer\<close> over a file opened with \<open>O_APPEND\<close>.  \<open>Write\<close> follows the loop of the
  standard library: a write that fits is buffered; a write that does not fit goes straight
  to the file when the buffer is empty, and otherwise fills the buffer, flushes it and
  goes on with the rest.
\<close>

record Writer =
  buf :: "byte list"
  bufSize :: nat

definition NewWriterSize :: "nat \<Rightarrow> Writer" where
  "NewWriterSize n = \<lparr>buf = [], bufSize = (if n = 0 then 4096 else n)\<rparr>"

definition bufio_Flush :: "Writer \<Rightarrow> fs \<Rightarrow> string \<Rightarrow> Writer \<times> fs" where
  "bufio_Flush w fs p =
     (if buf w = [] then (w, fs) else (w\<lparr>buf := []\<rparr>, file_append fs p (buf w)))"

definition bufio_Write :: "Writer \<Rightarrow> fs \<Rightarrow> string \<Rightarrow> byte list \<Rightarrow> Writer \<times> fs" where
  "bufio_Write w fs p bs =
     (if length bs \<le> bufSize w - length (buf w) then (w\<lparr>buf := buf w @ bs\<rparr>, fs)
      else if buf w = [] then (w, file_append fs p bs)
      else
        (let n = bufSize w - length (buf w);
             fs1 = file_append fs p (buf w @ take n bs);
             rest = drop n bs
         in if length rest \<le> bufSize w then (w\<lparr>buf := rest\<rparr>, fs1)
            else (w\<lparr>buf := []\<rparr>, file_append fs1 p rest)))"

subsection \<open>Sparse index\<close>

record Index =
  ipath :: string
  iwriter :: Writer
  writerBufferSize :: nat
  reader :: MmapStore

text \<open>
  \<open>NewIndex\<close> opens the file with \<open>O_CREATE\<close>, truncates a tail that is not a whole entry
  and maps the file.
\<close>

definition NewIndex :: "fs \<Rightarrow> string \<Rightarrow> (error + Index) \<times> fs" where
  "NewIndex fs p =
     (let c = contents fs p;
          c1 = (if length c mod entryWidth \<noteq> 0
                then take (length c - length c mod entryWidth) c else c);
          fs1 = fs(p \<mapsto> c1)
      in case NewMmapStore fs1 p of
           Inl e \<Rightarrow> (Inl e, fs1)
         | Inr r \<Rightarrow>
             (Inr \<lparr>ipath = p, iwriter = NewWriterSize (entryWidth * 5),
                    writerBufferSize = entryWidth * 5, reader = r\<rparr>, fs1))"

definition WriteEntry :: "Index \<Rightarrow> fs \<Rightarrow> IndexEntry \<Rightarrow> Index \<times> fs" where
  "WriteEntry i fs entry =
     (let (w, fs1) = bufio_Write (iwriter i) fs (ipath i) (Marshal entry)
      in (i\<lparr>iwriter := w\<rparr>, fs1))"

definition readEntryInternal :: "Index \<Rightarrow> int \<Rightarrow> error + IndexEntry" where
  "readEntryInternal i idx =
     (case ReadAt (reader i) (int64 (idx * int entryWidth)) (int entryWidth) of
        Inl e \<Rightarrow> Inl (wrapErr ''failed to read entry'' e)
      | Inr chunk \<Rightarrow>
          (case Unmarshal chunk of
             None \<Rightarrow> Inl (Panic ''slice bounds out of range'')
           | Some ie \<Rightarrow> Inr ie))"

text \<open>
  \<open>sort.Search\<close> of the standard library: binary search for the smallest index in
  \<open>[0, n)\<close> at which \<open>f\<close> is true, \<open>n\<close> if there is none.  The closure may change the
  variables it captured (the state \<open>'s\<close>) and may panic (\<open>Inl\<close>).
\<close>

function Search :: "nat \<Rightarrow> nat \<Rightarrow> (nat \<Rightarrow> 's \<Rightarrow> error + (bool \<times> 's)) \<Rightarrow> 's \<Rightarrow> error + (nat \<times> 's)" where
  "Search i j f s =
     (if i < j then
        (let h = (i + j) div 2 in
         case f h s of
           Inl e \<Rightarrow> Inl e
         | Inr (b, s1) \<Rightarrow> if \<not> b then Search (h + 1) j f s1 else Search i h f s1)
      else Inr (i, s))"
  by pat_completeness auto
termination
  by (relation "measure (\<lambda>(i, j, f, s). j - i)") auto

definition sort_Search :: "nat \<Rightarrow> (nat \<Rightarrow> 's \<Rightarrow> error + (bool \<times> 's)) \<Rightarrow> 's \<Rightarrow> error + (nat \<times> 's)" where
  "sort_Search n f s = Search 0 n f s"

text \<open>
  \<open>FindNearest\<close>: flush the writer, remap the reader, then search.  The closure records a
  failed read in \<open>readErr\<close> and compares the zero entry it got.
\<close>

definition FindNearest :: "Index \<Rightarrow> fs \<Rightarrow> 32 word \<Rightarrow> (error + IndexEntry) \<times> Index \<times> fs" where
  "FindNearest i fs targetOffset =
     (let (w, fs1) = bufio_Flush (iwriter i) fs (ipath i);
          i1 = i\<lparr>iwriter := w, reader := Sync fs1 (reader i)\<rparr>;
          totalEntries = Size (reader i1) div entryWidth
      in case sort_Search totalEntries
             (\<lambda>k readErr.
                case readEntryInternal i1 (int k) of
                  Inl e \<Rightarrow> if is_panic e then Inl e
                           else Inr (LogicalOff emptyEntry > targetOffset, Some e)
                | Inr entry \<Rightarrow> Inr (LogicalOff entry > targetOffset, readErr))
             None of
           Inl e \<Rightarrow> (Inl e, i1, fs1)
         | Inr (idx, readErr) \<Rightarrow>
             (case readErr of
                Some e \<Rightarrow> (Inl (wrapErr ''failed to read index entry'' e), i1, fs1)
              | None \<Rightarrow>
                  if idx = 0 then (Inr emptyEntry, i1, fs1)
                  else (readEntryInternal i1 (int idx - 1), i1, fs1)))"

definition LastEntry :: "Index \<Rightarrow> fs \<Rightarrow> (error + IndexEntry) \<times> Index \<times> fs" where
  "LastEntry i fs =
     (let (w, fs1) = bufio_Flush (iwriter i) fs (ipath i);
          i1 = i\<lparr>iwriter := w, reader := Sync fs1 (reader i)\<rparr>;
          size = Size (reader i1)
      in if size = 0 then (Inr emptyEntry, i1, fs1)
         else (readEntryInternal i1 (int (size div entryWidth) - 1), i1, fs1))"

definition IndexClose :: "Index \<Rightarrow> fs \<Rightarrow> Index \<times> fs" where
  "IndexClose i fs =
     (let (w, fs1) = bufio_Flush (iwriter i) fs (ipath i)
      in (i\<lparr>iwriter := w, reader := MmapClose (reader i)\<rparr>, fs1))"

section \<open>Codecs\<close>

lemma Uint32_PutUint32: "Uint32 (PutUint32 v) = v"
proof (rule bit_word_eqI)
  fix n :: nat
  assume "n < LENGTH(32)"
  then have "n < 32" by simp
  then consider "n < 8" | "8 \<le> n" "n < 16" | "16 \<le> n" "n < 24" | "24 \<le> n" "n < 32"
    by linarith
  then show "bit (Uint32 (PutUint32 v)) n = bit v n"
    by cases (auto simp add: Uint32_def PutUint32_def bit_simps)
qed

lemma Uint64_PutUint64: "Uint64 (PutUint64 v) = v"
proof (rule bit_word_eqI)
  fix n :: nat
  assume "n < LENGTH(64)"
  then have "n < 64" by simp
  then consider "n < 8" | "8 \<le> n" "n < 16" | "16 \<le> n" "n < 24" | "24 \<le> n" "n < 32"
    | "32 \<le> n" "n < 40" | "40 \<le> n" "n < 48" | "48 \<le> n" "n < 56" | "56 \<le> n" "n < 64"
    by linarith
  then show "bit (Uint64 (PutUint64 v)) n = bit v n"
    by cases (auto simp add: Uint64_def PutUint64_def bit_simps)
qed

lemma length_PutUint64 [simp]: "length (PutUint64 v) = 8"
  by (simp add: PutUint64_def)

lemma length_PutUint32 [simp]: "length (PutUint32 v) = 4"
  by (simp add: PutUint32_def)

lemma length_Encode [simp]: "length (Encode h) = 24"
  by (simp add: Encode_def)

lemma length_Marshal [simp]: "length (Marshal e) = 8"
  by (simp add: Marshal_def)

lemma Decode_Encode [simp]: "Decode (Encode h) = Some h"
  by (simp add: Decode_def Encode_def Uint64_PutUint64)

lemma Unmarshal_Marshal [simp]: "Unmarshal (Marshal e) = Some e"
  by (simp add: Unmarshal_def Marshal_def Uint32_PutUint32)

text \<open>
  C9.  Encoding a record header into its 24-byte big-endian slot and decoding the slot
  gives the header back, and marshalling an index entry into its 8-byte slot and
  unmarshalling the slot gives the entry back.
\<close>

theorem codec_roundtrip:
  "length (Encode h) = HeaderSize \<and> Decode (Encode h) = Some h \<and>
   length (Marshal e) = entryWidth \<and> Unmarshal (Marshal e) = Some e"
  by simp

end
